theory Spec2Isabelle
  imports Main
begin

section \<open>Data model (useGameState.ts, PartyStatus)\<close>

text \<open>
  The interfaces of the dashboard become records. A JavaScript \<open>number\<close> that the client
  only stores, compares and prints is an \<open>int\<close>; a \<open>string\<close> is a list of bytes (the icons
  are written as their UTF-8 bytes). A value that may be \<open>null\<close> or \<open>undefined\<close> is an
  \<open>option\<close>.
\<close>

record Pokemon =
  nickname :: string
  level :: int
  current_hp :: int
  max_hp :: int
  hp_percentage :: int
  is_fainted :: bool

record Party =
  party_count :: int
  pokemon :: "Pokemon list"
  total_hp_percentage :: int

record Position =
  pos_x :: int
  pos_y :: int
  map_bank :: int
  map_number :: int

record GameState =
  party :: Party
  position :: Position
  badges :: int
  badge_count :: int
  money :: int
  in_battle :: bool

datatype AgentStatus = Active | Idle | Busy

record Agent =
  name :: string
  role :: string
  status :: AgentStatus
  icon :: string

text \<open>\<open>Omit<LogEntry, 'timestamp'>\<close> is the record without the time stamp; \<open>LogEntry\<close> extends it.\<close>

record LogInput =
  agent :: string
  action :: string
  details :: string

record LogEntry = LogInput +
  timestamp :: string

definition DEFAULT_AGENTS :: "Agent list" where
  "DEFAULT_AGENTS =
    [\<lparr>name = ''Planning Agent'', role = ''Strategic Planner'', status = Idle,
       icon = [CHR 0xF0, CHR 0x9F, CHR 0x8E, CHR 0xAF]\<rparr>,
     \<lparr>name = ''Navigation Agent'', role = ''Overworld Navigator'', status = Idle,
       icon = [CHR 0xF0, CHR 0x9F, CHR 0x9A, CHR 0xB6]\<rparr>,
     \<lparr>name = ''Battle Agent'', role = ''Combat Strategist'', status = Idle,
       icon = [CHR 0xE2, CHR 0x9A, CHR 0x94, CHR 0xEF, CHR 0xB8, CHR 0x8F]\<rparr>,
     \<lparr>name = ''Memory Agent'', role = ''Memory Manager'', status = Idle,
       icon = [CHR 0xF0, CHR 0x9F, CHR 0xA7, CHR 0xA0]\<rparr>,
     \<lparr>name = ''Critique Agent'', role = ''Task Evaluator'', status = Idle,
       icon = [CHR 0xF0, CHR 0x9F, CHR 0x93, CHR 0x8A]\<rparr>]"

section \<open>State store (useGameState)\<close>

text \<open>
  The three \<open>useState\<close> cells of the hook. Every setter becomes a function from the store
  to the updated store; the functional updaters (\<open>setLogs(prev => ...)\<close>) read the store
  they are applied to.
\<close>

record Store =
  gameState :: "GameState option"
  agents :: "Agent list"
  logs :: "LogEntry list"

definition initialStore :: Store where
  "initialStore = \<lparr>gameState = None, agents = DEFAULT_AGENTS, logs = []\<rparr>"

definition updateGameState :: "GameState \<Rightarrow> 'a Store_scheme \<Rightarrow> 'a Store_scheme" where
  "updateGameState newState st = st\<lparr>gameState := Some newState\<rparr>"

definition updateAgentStatus ::
  "string \<Rightarrow> AgentStatus \<Rightarrow> 'a Store_scheme \<Rightarrow> 'a Store_scheme" where
  "updateAgentStatus agentName newStatus st =
     st\<lparr>agents := map (\<lambda>a. if name a = agentName then a\<lparr>status := newStatus\<rparr> else a)
                       (agents st)\<rparr>"

text \<open>
  \<open>prev.slice(-n)\<close> on an array: the start index is \<open>max (length - n) 0\<close>, so the result
  is the last \<open>n\<close> elements, or the whole array when it is shorter.
\<close>

definition slice_from_end :: "nat \<Rightarrow> 'a list \<Rightarrow> 'a list" where
  "slice_from_end n xs = drop (length xs - n) xs"

text \<open>
  \<open>addLog\<close>: the time stamp \<open>new Date().toLocaleTimeString()\<close> is read from the clock when
  the updater runs; it is the parameter \<open>now\<close>.
\<close>

definition stamp :: "string \<Rightarrow> LogInput \<Rightarrow> LogEntry" where
  "stamp now entry =
     \<lparr>agent = agent entry, action = action entry, details = details entry, timestamp = now\<rparr>"

definition addLog :: "string \<Rightarrow> LogInput \<Rightarrow> 'a Store_scheme \<Rightarrow> 'a Store_scheme" where
  "addLog now entry st = st\<lparr>logs := slice_from_end 50 (logs st) @ [stamp now entry]\<rparr>"

definition clearLogs :: "'a Store_scheme \<Rightarrow> 'a Store_scheme" where
  "clearLogs st = st\<lparr>logs := []\<rparr>"

text \<open>A sequence of \<open>addLog\<close> calls, each with the clock reading of its moment.\<close>

fun addLogs :: "(string \<times> LogInput) list \<Rightarrow> 'a Store_scheme \<Rightarrow> 'a Store_scheme" where
  "addLogs [] st = st"
| "addLogs ((now, entry) # calls) st = addLogs calls (addLog now entry st)"

section \<open>Party display (PartyStatus)\<close>

text \<open>Decimal rendering of an array index, for the label \<open>Pokemon ${index + 1}\<close>.\<close>

fun string_of_nat :: "nat \<Rightarrow> string" where
  "string_of_nat n =
     (if n < 10 then [char_of (48 + n)]
      else string_of_nat (n div 10) @ [char_of (48 + n mod 10)])"

definition getHPClass :: "int \<Rightarrow> string" where
  "getHPClass percentage =
     (if percentage > 50 then ''hp-high''
      else if percentage > 20 then ''hp-medium''
      else ''hp-low'')"

text \<open>What one cell of the party grid shows for a party member.\<close>

record PokemonCard =
  cardLabel :: string
  cardLevel :: int
  barClass :: string
  barWidth :: int
  hpText :: "int \<times> int"
  faintedShown :: bool

definition pokemonCard :: "nat \<Rightarrow> Pokemon \<Rightarrow> PokemonCard" where
  "pokemonCard index poke =
     \<lparr>cardLabel = (if nickname poke = [] then ''Pokemon '' @ string_of_nat (index + 1)
                    else nickname poke),
      cardLevel = level poke,
      barClass = getHPClass (hp_percentage poke),
      barWidth = hp_percentage poke,
      hpText = (current_hp poke, max_hp poke),
      faintedShown = is_fainted poke\<rparr>"

text \<open>\<open>party?.pokemon || []\<close>, then one card per member in order.\<close>

definition PartyStatus :: "Party option \<Rightarrow> PokemonCard list" where
  "PartyStatus p =
     (let pokes = (case p of None \<Rightarrow> [] | Some q \<Rightarrow> pokemon q)
      in map (\<lambda>(index, poke). pokemonCard index poke) (enumerate 0 pokes))"

text \<open>The page passes \<open>gameState?.party\<close> to the party display.\<close>

definition displayedParty :: "'a Store_scheme \<Rightarrow> PokemonCard list" where
  "displayedParty st = PartyStatus (map_option party (gameState st))"

text \<open>
  Modelled from the spec: the GameState invariant of the data model, which the backend
  (not part of these sources) upholds for every snapshot it sends and which the store
  trusts: \<open>hp_percentage == round(current_hp / max_hp * 100)\<close> when \<open>max_hp > 0\<close>, and
  \<open>is_fainted == (current_hp == 0)\<close>. Rounding is to the nearest integer, a half going up.
\<close>

definition round_percentage :: "int \<Rightarrow> int \<Rightarrow> int" where
  "round_percentage cur mx = (200 * cur + mx) div (2 * mx)"

definition pokemon_invariant :: "Pokemon \<Rightarrow> bool" where
  "pokemon_invariant q =
     ((0 < max_hp q \<longrightarrow> hp_percentage q = round_percentage (current_hp q) (max_hp q))
      \<and> is_fainted q = (current_hp q = 0))"

definition snapshot_invariant :: "GameState \<Rightarrow> bool" where
  "snapshot_invariant g = list_all pokemon_invariant (pokemon (party g))"

section \<open>Page state and command dispatcher (Home)\<close>

text \<open>
  The page holds the store together with its own cells \<open>isRunning\<close> and \<open>error\<close>.
  (\<open>isConnected\<close> mirrors the connection status and is read by no handler.)
\<close>

record Home = Store +
  isRunning :: bool
  error :: "string option"

definition initialHome :: Home where
  "initialHome = \<lparr>gameState = None, agents = DEFAULT_AGENTS, logs = [],
                   isRunning = False, error = None\<rparr>"

text \<open>
  A value caught by \<open>catch (err)\<close>: either an \<open>Error\<close> object with its message, or
  anything else. An awaited promise either rejects with a thrown value or resolves.
\<close>

datatype thrown = ErrorObject string | OtherValue

datatype 'a awaited = Rejected thrown | Resolved 'a

text \<open>
  A \<open>fetch\<close> response: the \<open>ok\<close> flag and what \<open>await response.json()\<close> gives (it rejects
  when the body is not JSON). The bodies have the fields the handlers read.
\<close>

record 'a Response =
  ok :: bool
  json :: "'a awaited"

text \<open>
  The body of a \<open>start\<close> response is untyped for the handler (\<open>data\<close> is \<open>any\<close>), so it is
  any JSON value. A number is kept as the decimal rendering that \<open>String\<close> gives of it
  (zero renders as \<open>0\<close>); the pairs of an object are in the order of the text.
\<close>

datatype json_value =
  JNull
| JBool bool
| JNumber string
| JString string
| JArray "json_value list"
| JObject "(string \<times> json_value) list"

text \<open>Truthiness, as \<open>||\<close> tests it.\<close>

fun truthy :: "json_value \<Rightarrow> bool" where
  "truthy JNull = False"
| "truthy (JBool b) = b"
| "truthy (JNumber r) = (r \<noteq> ''0'')"
| "truthy (JString s) = (s \<noteq> [])"
| "truthy (JArray xs) = True"
| "truthy (JObject kvs) = True"

fun join_comma :: "string list \<Rightarrow> string" where
  "join_comma [] = []"
| "join_comma [x] = x"
| "join_comma (x # y # ys) = x @ '','' @ join_comma (y # ys)"

text \<open>
  The string conversion that \<open>new Error(value)\<close> applies to its argument: a string is
  itself, an array is its elements joined by commas (\<open>null\<close> elements empty), any other
  object is \<open>[object Object]\<close>.
\<close>

fun js_to_string :: "json_value \<Rightarrow> string" where
  "js_to_string JNull = ''null''"
| "js_to_string (JBool b) = (if b then ''true'' else ''false'')"
| "js_to_string (JNumber r) = r"
| "js_to_string (JString s) = s"
| "js_to_string (JArray xs) =
     join_comma (map (\<lambda>x. if x = JNull then [] else js_to_string x) xs)"
| "js_to_string (JObject kvs) = ''[object Object]''"

text \<open>
  \<open>data.detail\<close>: reading a property of \<open>null\<close> throws a \<open>TypeError\<close>, whose message is the
  engine's and is the parameter \<open>nullReadMessage\<close>; an object gives the value of its last
  \<open>detail\<close> pair, if any; every other value gives \<open>undefined\<close>.
\<close>

definition readDetail :: "string \<Rightarrow> json_value \<Rightarrow> thrown + json_value option" where
  "readDetail nullReadMessage data =
     (case data of
        JNull \<Rightarrow> Inl (ErrorObject nullReadMessage)
      | JObject kvs \<Rightarrow> Inr (map_of (rev kvs) ''detail'')
      | _ \<Rightarrow> Inr None)"

text \<open>\<open>v || d\<close> on a value that may be \<open>undefined\<close>.\<close>

definition js_or_value :: "json_value option \<Rightarrow> json_value \<Rightarrow> json_value" where
  "js_or_value v d = (case v of None \<Rightarrow> d | Some j \<Rightarrow> if truthy j then j else d)"

record IterateBody =
  game_state :: "GameState option"
  action_taken :: "string option"
  outcome :: "string option"

text \<open>A network call that a handler issues.\<close>

datatype request = POST string "string option" | GET string

definition startRequest :: request where
  "startRequest = POST ''/api/game/start'' (Some ''groq/llama-3.3-70b-versatile'')"

definition stopRequest :: request where
  "stopRequest = POST ''/api/game/stop'' None"

definition iterateRequest :: request where
  "iterateRequest = POST ''/api/game/iterate'' None"

text \<open>
  \<open>v || d\<close> on an optional string: \<open>undefined\<close>, \<open>null\<close> and the empty string are falsy.
\<close>

definition js_or :: "string option \<Rightarrow> string \<Rightarrow> string" where
  "js_or v d = (case v of None \<Rightarrow> d | Some s \<Rightarrow> if s = [] then d else s)"

text \<open>\<open>err instanceof Error ? err.message : fallback\<close>\<close>

definition catch_message :: "thrown \<Rightarrow> string \<Rightarrow> string" where
  "catch_message err fallback = (case err of ErrorObject m \<Rightarrow> m | OtherValue \<Rightarrow> fallback)"

text \<open>
  Each handler takes the clock reading, the outcome of its \<open>fetch\<close> and the page state, and
  returns the network calls it issued together with the new page state. In \<open>handleStart\<close>
  every \<open>throw\<close> inside the \<open>try\<close> block ends in the \<open>catch\<close>: a rejected \<open>fetch\<close>, a
  rejected \<open>response.json()\<close>, the \<open>TypeError\<close> of \<open>data.detail\<close> on \<open>null\<close>, and the
  handler's own \<open>new Error(data.detail || 'Failed to start')\<close>.
\<close>

definition handleStart ::
  "string \<Rightarrow> string \<Rightarrow> json_value Response awaited \<Rightarrow> Home \<Rightarrow> request list \<times> Home"
  where
  "handleStart nullReadMessage now fetched st =
     (let st1 = st\<lparr>error := None\<rparr> in
      case fetched of
        Rejected err \<Rightarrow>
          ([startRequest], st1\<lparr>error := Some (catch_message err ''Failed to start game'')\<rparr>)
      | Resolved response \<Rightarrow>
          if \<not> ok response then
            (case json response of
               Rejected err \<Rightarrow>
                 ([startRequest],
                  st1\<lparr>error := Some (catch_message err ''Failed to start game'')\<rparr>)
             | Resolved data \<Rightarrow>
                 (case readDetail nullReadMessage data of
                    Inl err \<Rightarrow>
                      ([startRequest],
                       st1\<lparr>error := Some (catch_message err ''Failed to start game'')\<rparr>)
                  | Inr v \<Rightarrow>
                      ([startRequest],
                       st1\<lparr>error := Some (catch_message
                                (ErrorObject
                                  (js_to_string (js_or_value v (JString ''Failed to start''))))
                                ''Failed to start game'')\<rparr>)))
          else
            ([startRequest],
             addLog now \<lparr>agent = ''System'', action = ''started'',
                          details = ''AI Pokemon player started''\<rparr>
               (st1\<lparr>isRunning := True\<rparr>)))"

definition handleStop ::
  "string \<Rightarrow> 'b Response awaited \<Rightarrow> Home \<Rightarrow> request list \<times> Home" where
  "handleStop now fetched st =
     (case fetched of
        Rejected err \<Rightarrow>
          ([stopRequest], st\<lparr>error := Some (catch_message err ''Failed to stop game'')\<rparr>)
      | Resolved response \<Rightarrow>
          ([stopRequest],
           addLog now \<lparr>agent = ''System'', action = ''stopped'',
                        details = ''AI Pokemon player stopped''\<rparr>
             (st\<lparr>isRunning := False\<rparr>)))"

definition handleIterate ::
  "string \<Rightarrow> IterateBody Response awaited \<Rightarrow> Home \<Rightarrow> request list \<times> Home" where
  "handleIterate now fetched st =
     (if \<not> isRunning st then ([], st)
      else case fetched of
        Rejected err \<Rightarrow> ([iterateRequest], st)
      | Resolved response \<Rightarrow>
          (case json response of
             Rejected err \<Rightarrow> ([iterateRequest], st)
           | Resolved result \<Rightarrow>
               (let st1 = (case game_state result of
                             Some g \<Rightarrow> updateGameState g st
                           | None \<Rightarrow> st);
                    st2 = (case action_taken result of
                             None \<Rightarrow> st1
                           | Some a \<Rightarrow>
                               if a = [] then st1
                               else addLog now
                                      \<lparr>agent = (if a = ''battle'' then ''Battle Agent''
                                                else ''Planning Agent''),
                                       action = a,
                                       details = js_or (outcome result) ''Action completed''\<rparr>
                                      st1)
                in ([iterateRequest], st2))))"

text \<open>
  The effect on \<open>lastMessage\<close>: a \<open>game_state\<close> message replaces the snapshot, an
  \<open>agent_action\<close> message is appended to the log, any other kind is ignored.
\<close>

datatype WebSocketMessage =
  GameStateMessage GameState
| AgentActionMessage LogInput
| OtherMessage string

definition onLastMessage :: "string \<Rightarrow> WebSocketMessage option \<Rightarrow> Home \<Rightarrow> Home" where
  "onLastMessage now latest st =
     (case latest of
        None \<Rightarrow> st
      | Some (GameStateMessage g) \<Rightarrow> updateGameState g st
      | Some (AgentActionMessage e) \<Rightarrow> addLog now e st
      | Some (OtherMessage k) \<Rightarrow> st)"

section \<open>Connection manager (useWebSocket)\<close>

datatype ConnectionStatus = Connecting | Connected | Disconnected | Error

text \<open>The \<open>readyState\<close> of a \<open>WebSocket\<close> object.\<close>

datatype readyState = CONNECTING | OPEN | CLOSING | CLOSED

text \<open>
  The hook's two state cells and two refs, together with the part of the platform they
  refer to: every \<open>WebSocket\<close> object created so far (a socket is its index in \<open>sockets\<close>;
  each one carries the four handlers that \<open>connect\<close> installs and keeps them for life), the
  timers set by \<open>setTimeout\<close> that have neither fired nor been cleared, and the counter
  that numbers timers (timer handles are truthy, so numbering starts at 1).
\<close>

record Conn =
  connectionStatus :: ConnectionStatus
  lastMessage :: "WebSocketMessage option"
  wsRef :: "nat option"
  reconnectTimeoutRef :: "nat option"
  sockets :: "readyState list"
  pendingTimers :: "nat list"
  nextTimer :: nat
  sent :: "(nat \<times> string) list"

definition initialConn :: Conn where
  "initialConn = \<lparr>connectionStatus = Disconnected, lastMessage = None, wsRef = None,
                   reconnectTimeoutRef = None, sockets = [], pendingTimers = [],
                   nextTimer = 1, sent = []\<rparr>"

text \<open>\<open>wsRef.current?.readyState === WebSocket.OPEN\<close>\<close>

definition currentIsOpen :: "Conn \<Rightarrow> bool" where
  "currentIsOpen c =
     (case wsRef c of
        None \<Rightarrow> False
      | Some i \<Rightarrow> i < length (sockets c) \<and> sockets c ! i = OPEN)"

text \<open>
  \<open>connect\<close>: \<open>url_ok\<close> tells whether \<open>new WebSocket(url)\<close> returns an object (in the
  \<open>CONNECTING\<close> state) or throws.
\<close>

definition connect :: "bool \<Rightarrow> Conn \<Rightarrow> Conn" where
  "connect url_ok c =
     (if currentIsOpen c then c
      else
        let c1 = c\<lparr>connectionStatus := Connecting\<rparr> in
        if url_ok then
          c1\<lparr>sockets := sockets c1 @ [CONNECTING], wsRef := Some (length (sockets c1))\<rparr>
        else c1\<lparr>connectionStatus := Error\<rparr>)"

text \<open>The handlers installed on every socket.\<close>

definition onopen :: "Conn \<Rightarrow> Conn" where
  "onopen c = c\<lparr>connectionStatus := Connected\<rparr>"

text \<open>
  A text frame either fails \<open>JSON.parse\<close> (logged, nothing set), parses to \<open>null\<close>
  (\<open>setLastMessage(null)\<close>), or yields a message.
\<close>

datatype frame = Malformed | ParsedNull | Parsed WebSocketMessage

definition onmessage :: "frame \<Rightarrow> Conn \<Rightarrow> Conn" where
  "onmessage f c =
     (case f of
        Malformed \<Rightarrow> c
      | ParsedNull \<Rightarrow> c\<lparr>lastMessage := None\<rparr>
      | Parsed m \<Rightarrow> c\<lparr>lastMessage := Some m\<rparr>)"

text \<open>\<open>onclose\<close> sets the status and schedules \<open>connect\<close> with a new timer, kept in the ref.\<close>

definition onclose :: "Conn \<Rightarrow> Conn" where
  "onclose c =
     (let t = nextTimer c in
      c\<lparr>connectionStatus := Disconnected,
        reconnectTimeoutRef := Some t,
        pendingTimers := pendingTimers c @ [t],
        nextTimer := t + 1\<rparr>)"

definition onerror :: "Conn \<Rightarrow> Conn" where
  "onerror c = c\<lparr>connectionStatus := Error\<rparr>"

text \<open>\<open>ws.close()\<close> starts the closing handshake unless the socket is closing or closed.\<close>

definition closeSocket :: "nat \<Rightarrow> readyState list \<Rightarrow> readyState list" where
  "closeSocket i ss =
     (if i < length ss \<and> (ss ! i = CONNECTING \<or> ss ! i = OPEN) then ss[i := CLOSING] else ss)"

definition disconnect :: "Conn \<Rightarrow> Conn" where
  "disconnect c =
     (let c1 = (case reconnectTimeoutRef c of
                  Some t \<Rightarrow> c\<lparr>pendingTimers := removeAll t (pendingTimers c)\<rparr>
                | None \<Rightarrow> c)
      in case wsRef c1 of
           Some i \<Rightarrow> c1\<lparr>sockets := closeSocket i (sockets c1), wsRef := None\<rparr>
         | None \<Rightarrow> c1)"

definition sendMessage :: "string \<Rightarrow> Conn \<Rightarrow> Conn" where
  "sendMessage text c =
     (case wsRef c of
        None \<Rightarrow> c
      | Some i \<Rightarrow> if currentIsOpen c then c\<lparr>sent := sent c @ [(i, text)]\<rparr> else c)"

text \<open>
  What the event loop can run: a call of an exported function, an event that the platform
  dispatches on a socket, or a timer that falls due. \<open>step\<close> is \<open>None\<close> when the platform
  cannot produce the event in that state (an open event on a socket that is not
  connecting, a close event on a closed socket, a timer that is not pending).
\<close>

datatype event =
  CallConnect
| CallDisconnect
| CallSend string
| SocketOpen nat
| SocketMessage nat frame
| SocketError nat
| SocketClose nat
| TimerFires nat

definition step :: "bool \<Rightarrow> event \<Rightarrow> Conn \<Rightarrow> Conn option" where
  "step url_ok e c =
     (case e of
        CallConnect \<Rightarrow> Some (connect url_ok c)
      | CallDisconnect \<Rightarrow> Some (disconnect c)
      | CallSend text \<Rightarrow> Some (sendMessage text c)
      | SocketOpen i \<Rightarrow>
          if i < length (sockets c) \<and> sockets c ! i = CONNECTING
          then Some (onopen (c\<lparr>sockets := (sockets c)[i := OPEN]\<rparr>))
          else None
      | SocketMessage i f \<Rightarrow>
          if i < length (sockets c) \<and> sockets c ! i = OPEN
          then Some (onmessage f c)
          else None
      | SocketError i \<Rightarrow>
          if i < length (sockets c) \<and> sockets c ! i \<noteq> CLOSED
          then Some (onerror c)
          else None
      | SocketClose i \<Rightarrow>
          if i < length (sockets c) \<and> sockets c ! i \<noteq> CLOSED
          then Some (onclose (c\<lparr>sockets := (sockets c)[i := CLOSED]\<rparr>))
          else None
      | TimerFires t \<Rightarrow>
          if t \<in> set (pendingTimers c)
          then Some (connect url_ok (c\<lparr>pendingTimers := removeAll t (pendingTimers c)\<rparr>))
          else None)"

fun run :: "bool \<Rightarrow> event list \<Rightarrow> Conn \<Rightarrow> Conn option" where
  "run url_ok [] c = Some c"
| "run url_ok (e # es) c =
     (case step url_ok e c of None \<Rightarrow> None | Some c' \<Rightarrow> run url_ok es c')"

text \<open>The sockets that are not closed yet, i.e. the live connection objects.\<close>

definition liveSockets :: "Conn \<Rightarrow> nat list" where
  "liveSockets c = filter (\<lambda>i. sockets c ! i \<noteq> CLOSED) [0..<length (sockets c)]"

section \<open>Screen poll (GameDisplay)\<close>

text \<open>
  The component's \<open>screenImage\<close> cell and the \<open>isRunning\<close> prop of its last render,
  together with the interval set by the effect (\<open>Some b\<close>: an interval is active and calls
  the \<open>fetchScreen\<close> closure that captured \<open>isRunning = b\<close>), the number of \<open>fetch\<close> calls
  issued so far and the number of them still awaiting their response.
\<close>

record Display =
  runningProp :: bool
  screenImage :: "string option"
  pollInterval :: "bool option"
  issued :: nat
  inFlight :: nat

record ScreenBody =
  image :: string

text \<open>The component after its first render with \<open>isRunning = false\<close>.\<close>

definition mountedDisplay :: Display where
  "mountedDisplay = \<lparr>runningProp = False, screenImage = None, pollInterval = None,
                      issued = 0, inFlight = 0\<rparr>"

text \<open>
  \<open>fetchScreen\<close> up to its \<open>await fetch(...)\<close>: the guard reads the \<open>isRunning\<close> that the
  closure captured; past the guard one request is issued.
\<close>

definition fetchScreen :: "bool \<Rightarrow> Display \<Rightarrow> Display" where
  "fetchScreen captured d =
     (if \<not> captured then d else d\<lparr>issued := issued d + 1, inFlight := inFlight d + 1\<rparr>)"

text \<open>\<open>fetchScreen\<close> after the \<open>await\<close>: the rest of the \<open>try\<close> block, run when the response arrives.\<close>

definition fetchScreenResume :: "ScreenBody Response awaited \<Rightarrow> Display \<Rightarrow> Display" where
  "fetchScreenResume fetched d =
     (case fetched of
        Rejected err \<Rightarrow> d
      | Resolved response \<Rightarrow>
          if ok response then
            (case json response of
               Rejected err \<Rightarrow> d
             | Resolved data \<Rightarrow>
                 d\<lparr>screenImage := Some (''data:image/png;base64,'' @ image data)\<rparr>)
          else d)"

text \<open>
  The effect with dependencies \<open>[isRunning, fetchScreen]\<close>: when the prop changes, the
  clean-up of the previous run clears its interval, then the effect runs again.
\<close>

definition pollEffect :: "bool \<Rightarrow> Display \<Rightarrow> Display" where
  "pollEffect running d =
     (let d1 = d\<lparr>runningProp := running, pollInterval := None\<rparr> in
      if running then (fetchScreen running d1)\<lparr>pollInterval := Some running\<rparr>
      else d1\<lparr>screenImage := None\<rparr>)"

datatype display_event =
  Render bool
| IntervalTick
| ResponseArrives "ScreenBody Response awaited"

definition display_step :: "display_event \<Rightarrow> Display \<Rightarrow> Display option" where
  "display_step e d =
     (case e of
        Render running \<Rightarrow> Some (if running = runningProp d then d else pollEffect running d)
      | IntervalTick \<Rightarrow>
          (case pollInterval d of
             None \<Rightarrow> None
           | Some captured \<Rightarrow> Some (fetchScreen captured d))
      | ResponseArrives fetched \<Rightarrow>
          if inFlight d = 0 then None
          else Some (fetchScreenResume fetched (d\<lparr>inFlight := inFlight d - 1\<rparr>)))"

fun display_run :: "display_event list \<Rightarrow> Display \<Rightarrow> Display option" where
  "display_run [] d = Some d"
| "display_run (e # es) d =
     (case display_step e d of None \<Rightarrow> None | Some d' \<Rightarrow> display_run es d')"

section \<open>The bounded log\<close>

lemma slice_from_end_length: "length (slice_from_end n xs) = min n (length xs)"
  by (simp add: slice_from_end_def)

lemma slice_from_end_append_one:
  "slice_from_end n xs @ [x] = slice_from_end (Suc n) (xs @ [x])"
  by (simp add: slice_from_end_def Suc_diff_le)

lemma slice_from_end_idem:
  "slice_from_end n (slice_from_end n xs @ ys) = slice_from_end n (xs @ ys)"
proof (cases "n \<le> length xs")
  case True
  then show ?thesis by (simp add: slice_from_end_def add.commute)
next
  case False
  then show ?thesis by (simp add: slice_from_end_def)
qed

text \<open>
  One call keeps the last 50 earlier entries and adds the new one, so the new log is the
  last 51 entries of the old log with the new entry appended.
\<close>

lemma logs_addLog: "logs (addLog now e st) = slice_from_end 51 (logs st @ [stamp now e])"
  using slice_from_end_append_one [of 50 "logs st" "stamp now e"]
  by (simp add: addLog_def)

lemma logs_addLogs:
  "calls \<noteq> [] \<Longrightarrow>
   logs (addLogs calls st) = slice_from_end 51 (logs st @ map (\<lambda>(now, e). stamp now e) calls)"
proof (induction calls arbitrary: st)
  case Nil
  then show ?case by simp
next
  case (Cons c calls)
  obtain now e where c: "c = (now, e)" by (cases c)
  show ?case
  proof (cases "calls = []")
    case True
    then show ?thesis by (simp add: c logs_addLog)
  next
    case False
    then show ?thesis
      using Cons.IH [of "addLog now e st"] slice_from_end_idem [of 51 "logs st @ [stamp now e]"]
      by (simp add: c logs_addLog)
  qed
qed

text \<open>
  From the empty log, any sequence of calls leaves the most recent 51 stamped entries, in
  call order: eviction is first-in first-out, nothing is reordered, and the bound is 51.
\<close>

lemma logs_addLogs_initial:
  "logs (addLogs calls initialStore) = slice_from_end 51 (map (\<lambda>(now, e). stamp now e) calls)"
  by (cases "calls = []") (simp_all add: logs_addLogs initialStore_def slice_from_end_def)

lemma length_logs_addLogs_initial: "length (logs (addLogs calls initialStore)) \<le> 51"
  by (simp add: logs_addLogs_initial slice_from_end_length)

text \<open>
  Claim C1 (the exposed log never holds more than 50 entries and is the most recent 50 in
  call order). The code evaluated at 51 calls on the empty log: \<open>prev.slice(-50)\<close> keeps 50
  earlier entries and the new one is appended after the cut, so the log holds 51 entries
  and the first of the 51 has not been evicted.
\<close>

theorem addLog_holds_51_entries:
  "length (logs (addLogs (replicate 51 (now, entry)) initialStore)) = 51"
  by (simp add: logs_addLogs_initial slice_from_end_def)

section \<open>The agent roster\<close>

lemma updateAgentStatus_agents:
  "agents (updateAgentStatus n s st) =
     map (\<lambda>a. if name a = n then a\<lparr>status := s\<rparr> else a) (agents st)"
  by (simp add: updateAgentStatus_def)

text \<open>
  Claim C8 (the frame of \<open>updateAgentStatus\<close>). The function is total (the source has no
  throwing path); the roster keeps its length and, position by position, its names, roles
  and icons; a name that matches no agent leaves the whole store unchanged; at every
  position the entry is the old entry, with only the status replaced when the name
  matches; the snapshot and the log are untouched.
\<close>

theorem updateAgentStatus_frame:
  "length (agents (updateAgentStatus n s st)) = length (agents st)
   \<and> map name (agents (updateAgentStatus n s st)) = map name (agents st)
   \<and> map role (agents (updateAgentStatus n s st)) = map role (agents st)
   \<and> map icon (agents (updateAgentStatus n s st)) = map icon (agents st)
   \<and> (n \<notin> set (map name (agents st)) \<longrightarrow> updateAgentStatus n s st = st)
   \<and> (\<forall>i < length (agents st).
        agents (updateAgentStatus n s st) ! i =
          (if name (agents st ! i) = n then (agents st ! i)\<lparr>status := s\<rparr> else agents st ! i))
   \<and> gameState (updateAgentStatus n s st) = gameState st
   \<and> logs (updateAgentStatus n s st) = logs st"
proof -
  have unchanged: "map (\<lambda>a. if name a = n then a\<lparr>status := s\<rparr> else a) xs = xs"
    if "n \<notin> name ` set xs" for xs :: "Agent list"
    using that by (induction xs) auto
  have "n \<notin> set (map name (agents st)) \<longrightarrow> updateAgentStatus n s st = st"
    using unchanged [of "agents st"] by (simp add: updateAgentStatus_def)
  then show ?thesis
    by (simp add: updateAgentStatus_agents comp_def) (simp add: updateAgentStatus_def)
qed

theorem updateAgentStatus_frame_witness:
  "updateAgentStatus ''Unknown Agent'' Active initialStore = initialStore
   \<and> agents (updateAgentStatus ''Battle Agent'' Busy initialStore) ! 2 =
       \<lparr>name = ''Battle Agent'', role = ''Combat Strategist'', status = Busy,
        icon = [CHR 0xE2, CHR 0x9A, CHR 0x94, CHR 0xEF, CHR 0xB8, CHR 0x8F]\<rparr>
   \<and> agents (updateAgentStatus ''Battle Agent'' Busy initialStore) ! 0 = DEFAULT_AGENTS ! 0"
  using updateAgentStatus_frame [of "''Unknown Agent''" Active initialStore]
        updateAgentStatus_frame [of "''Battle Agent''" Busy initialStore]
  by (simp add: initialStore_def DEFAULT_AGENTS_def)

section \<open>The party display\<close>

lemma PartyStatus_fields:
  "map (\<lambda>c. (hpText c, barWidth c, faintedShown c)) (PartyStatus (Some p)) =
   map (\<lambda>q. ((current_hp q, max_hp q), hp_percentage q, is_fainted q)) (pokemon p)"
proof -
  have "map (\<lambda>c. (hpText c, barWidth c, faintedShown c))
          (map (\<lambda>(index, poke). pokemonCard index poke) (enumerate k ps)) =
        map (\<lambda>q. ((current_hp q, max_hp q), hp_percentage q, is_fainted q)) ps"
    for k and ps :: "Pokemon list"
    by (induction ps arbitrary: k) (simp_all add: pokemonCard_def)
  then show ?thesis by (simp add: PartyStatus_def)
qed

text \<open>
  The display derives nothing: after a \<open>game_state\<close> message is applied it shows, member
  by member and in order, the values that the message carries.
\<close>

lemma display_shows_snapshot_values:
  "map (\<lambda>c. (hpText c, barWidth c, faintedShown c))
     (displayedParty (onLastMessage now (Some (GameStateMessage g)) st)) =
   map (\<lambda>q. ((current_hp q, max_hp q), hp_percentage q, is_fainted q)) (pokemon (party g))"
  by (simp add: displayedParty_def onLastMessage_def updateGameState_def PartyStatus_fields)

lemma displayed_member:
  assumes "i < length (pokemon (party g))"
  shows "(\<lambda>c. (hpText c, barWidth c, faintedShown c))
           (displayedParty (onLastMessage now (Some (GameStateMessage g)) st) ! i) =
         (\<lambda>q. ((current_hp q, max_hp q), hp_percentage q, is_fainted q))
           (pokemon (party g) ! i)"
proof -
  let ?cards = "displayedParty (onLastMessage now (Some (GameStateMessage g)) st)"
  have len: "length ?cards = length (pokemon (party g))"
    using display_shows_snapshot_values [of now g st, THEN arg_cong, of length] by simp
  have "map (\<lambda>c. (hpText c, barWidth c, faintedShown c)) ?cards ! i =
        map (\<lambda>q. ((current_hp q, max_hp q), hp_percentage q, is_fainted q))
          (pokemon (party g)) ! i"
    by (simp only: display_shows_snapshot_values)
  then show ?thesis using assms len by simp
qed

text \<open>
  Claim C9: for every \<open>game_state\<close> message whose snapshot meets the GameState invariant,
  once it is applied to the store there is one displayed card per party member, in order,
  and the card of each member shows that member's HP, an \<open>hp_percentage\<close> equal to
  \<open>round(current_hp / max_hp * 100)\<close> when \<open>max_hp > 0\<close>, and \<open>is_fainted\<close> equal to
  \<open>current_hp == 0\<close>; so a member with HP 50/100 is displayed with 50 and not fainted, and
  a member with HP 0/100 is displayed as fainted.
\<close>

theorem display_satisfies_invariant:
  assumes "snapshot_invariant g"
  shows "length (displayedParty (onLastMessage now (Some (GameStateMessage g)) st)) =
           length (pokemon (party g))
         \<and> (\<forall>i < length (pokemon (party g)).
              hpText (displayedParty (onLastMessage now (Some (GameStateMessage g)) st) ! i) =
                (current_hp (pokemon (party g) ! i), max_hp (pokemon (party g) ! i))
              \<and> (0 < max_hp (pokemon (party g) ! i) \<longrightarrow>
                   barWidth (displayedParty (onLastMessage now (Some (GameStateMessage g)) st) ! i) =
                     round_percentage (current_hp (pokemon (party g) ! i))
                                      (max_hp (pokemon (party g) ! i)))
              \<and> faintedShown (displayedParty (onLastMessage now (Some (GameStateMessage g)) st) ! i) =
                   (current_hp (pokemon (party g) ! i) = 0)
              \<and> (current_hp (pokemon (party g) ! i) = 50 \<and> max_hp (pokemon (party g) ! i) = 100 \<longrightarrow>
                   barWidth (displayedParty (onLastMessage now (Some (GameStateMessage g)) st) ! i) = 50
                   \<and> \<not> faintedShown
                         (displayedParty (onLastMessage now (Some (GameStateMessage g)) st) ! i))
              \<and> (current_hp (pokemon (party g) ! i) = 0 \<and> max_hp (pokemon (party g) ! i) = 100 \<longrightarrow>
                   faintedShown
                     (displayedParty (onLastMessage now (Some (GameStateMessage g)) st) ! i)))"
proof -
  let ?cards = "displayedParty (onLastMessage now (Some (GameStateMessage g)) st)"
  let ?ps = "pokemon (party g)"
  have len: "length ?cards = length ?ps"
    using display_shows_snapshot_values [of now g st, THEN arg_cong, of length] by simp
  have member: "hpText (?cards ! i) = (current_hp (?ps ! i), max_hp (?ps ! i))
                \<and> barWidth (?cards ! i) = hp_percentage (?ps ! i)
                \<and> faintedShown (?cards ! i) = is_fainted (?ps ! i)"
    if "i < length ?ps" for i
    using displayed_member [OF that, of now st] by simp
  have inv: "pokemon_invariant (?ps ! i)" if "i < length ?ps" for i
    using assms that by (simp add: snapshot_invariant_def list_all_length)
  have half: "round_percentage 50 100 = 50"
    by (simp add: round_percentage_def)
  have "hpText (?cards ! i) = (current_hp (?ps ! i), max_hp (?ps ! i))
        \<and> (0 < max_hp (?ps ! i) \<longrightarrow>
             barWidth (?cards ! i) = round_percentage (current_hp (?ps ! i)) (max_hp (?ps ! i)))
        \<and> faintedShown (?cards ! i) = (current_hp (?ps ! i) = 0)
        \<and> (current_hp (?ps ! i) = 50 \<and> max_hp (?ps ! i) = 100 \<longrightarrow>
             barWidth (?cards ! i) = 50 \<and> \<not> faintedShown (?cards ! i))
        \<and> (current_hp (?ps ! i) = 0 \<and> max_hp (?ps ! i) = 100 \<longrightarrow> faintedShown (?cards ! i))"
    if "i < length ?ps" for i
    using member [OF that] inv [OF that] half by (auto simp: pokemon_invariant_def)
  with len show ?thesis by blast
qed

theorem display_satisfies_invariant_witness:
  "snapshot_invariant
     \<lparr>party = \<lparr>party_count = 2,
               pokemon = [\<lparr>nickname = ''CHARMANDER'', level = 5, current_hp = 50,
                           max_hp = 100, hp_percentage = 50, is_fainted = False\<rparr>,
                          \<lparr>nickname = ''PIDGEY'', level = 3, current_hp = 0,
                           max_hp = 100, hp_percentage = 0, is_fainted = True\<rparr>],
               total_hp_percentage = 25\<rparr>,
      position = \<lparr>pos_x = 0, pos_y = 0, map_bank = 0, map_number = 0\<rparr>,
      badges = 0, badge_count = 0, money = 0, in_battle = False\<rparr>
   \<and> barWidth (displayedParty (onLastMessage ''12:00:00''
       (Some (GameStateMessage
         \<lparr>party = \<lparr>party_count = 2,
                   pokemon = [\<lparr>nickname = ''CHARMANDER'', level = 5, current_hp = 50,
                               max_hp = 100, hp_percentage = 50, is_fainted = False\<rparr>,
                              \<lparr>nickname = ''PIDGEY'', level = 3, current_hp = 0,
                               max_hp = 100, hp_percentage = 0, is_fainted = True\<rparr>],
                   total_hp_percentage = 25\<rparr>,
          position = \<lparr>pos_x = 0, pos_y = 0, map_bank = 0, map_number = 0\<rparr>,
          badges = 0, badge_count = 0, money = 0, in_battle = False\<rparr>))
       initialHome) ! 0) = 50
   \<and> \<not> faintedShown (displayedParty (onLastMessage ''12:00:00''
       (Some (GameStateMessage
         \<lparr>party = \<lparr>party_count = 2,
                   pokemon = [\<lparr>nickname = ''CHARMANDER'', level = 5, current_hp = 50,
                               max_hp = 100, hp_percentage = 50, is_fainted = False\<rparr>,
                              \<lparr>nickname = ''PIDGEY'', level = 3, current_hp = 0,
                               max_hp = 100, hp_percentage = 0, is_fainted = True\<rparr>],
                   total_hp_percentage = 25\<rparr>,
          position = \<lparr>pos_x = 0, pos_y = 0, map_bank = 0, map_number = 0\<rparr>,
          badges = 0, badge_count = 0, money = 0, in_battle = False\<rparr>))
       initialHome) ! 0)
   \<and> faintedShown (displayedParty (onLastMessage ''12:00:00''
       (Some (GameStateMessage
         \<lparr>party = \<lparr>party_count = 2,
                   pokemon = [\<lparr>nickname = ''CHARMANDER'', level = 5, current_hp = 50,
                               max_hp = 100, hp_percentage = 50, is_fainted = False\<rparr>,
                              \<lparr>nickname = ''PIDGEY'', level = 3, current_hp = 0,
                               max_hp = 100, hp_percentage = 0, is_fainted = True\<rparr>],
                   total_hp_percentage = 25\<rparr>,
          position = \<lparr>pos_x = 0, pos_y = 0, map_bank = 0, map_number = 0\<rparr>,
          badges = 0, badge_count = 0, money = 0, in_battle = False\<rparr>))
       initialHome) ! 1)"
proof -
  let ?g = "\<lparr>party = \<lparr>party_count = 2,
               pokemon = [\<lparr>nickname = ''CHARMANDER'', level = 5, current_hp = 50,
                           max_hp = 100, hp_percentage = 50, is_fainted = False\<rparr>,
                          \<lparr>nickname = ''PIDGEY'', level = 3, current_hp = 0,
                           max_hp = 100, hp_percentage = 0, is_fainted = True\<rparr>],
               total_hp_percentage = 25\<rparr>,
      position = \<lparr>pos_x = 0, pos_y = 0, map_bank = 0, map_number = 0\<rparr>,
      badges = 0, badge_count = 0, money = 0, in_battle = False\<rparr>"
  have h: "snapshot_invariant ?g"
    by (simp add: snapshot_invariant_def pokemon_invariant_def round_percentage_def)
  have two: "(\<forall>i < length [a, b]. P i) \<Longrightarrow> P 0 \<and> P (Suc 0)" for a b :: Pokemon and P
    by simp
  show ?thesis
    using h display_satisfies_invariant [OF h, of "''12:00:00''" initialHome, THEN conjunct2]
    by (auto dest!: two)
qed

section \<open>The command dispatcher\<close>




text \<open>
  Two more bodies of a non-success response: the JSON value \<open>null\<close>, and a \<open>detail\<close> that
  is a list of objects (the shape of a validation error).
\<close>

lemma handleStart_null_body:
  "error (snd (handleStart nullReadMessage now
       (Resolved \<lparr>ok = False, json = Resolved JNull\<rparr>) st)) = Some nullReadMessage"
  by (simp add: handleStart_def catch_message_def readDetail_def)

lemma handleStart_list_detail:
  "error (snd (handleStart nullReadMessage now
       (Resolved \<lparr>ok = False,
                  json = Resolved (JObject [(''detail'',
                           JArray [JObject [(''msg'', JString ''field required'')]])])\<rparr>) st))
     = Some ''[object Object]''"
  by (simp add: handleStart_def catch_message_def readDetail_def js_or_value_def)

text \<open>
  Claim C6: \<open>iterate\<close> called while the running state is false issues no network call and
  leaves the whole page state (snapshot, roster, log, flags) as it was, whatever the
  backend would have answered.
\<close>

theorem handleIterate_stopped_noop:
  "\<not> isRunning st \<Longrightarrow> handleIterate now fetched st = ([], st)"
  by (simp add: handleIterate_def)

theorem handleIterate_stopped_noop_witness:
  "\<not> isRunning initialHome \<and>
   handleIterate ''12:00:00''
     (Resolved \<lparr>ok = True, json = Resolved \<lparr>game_state = None, action_taken = Some ''battle'',
                                             outcome = None\<rparr>\<rparr>) initialHome = ([], initialHome)"
proof -
  have h: "\<not> isRunning initialHome" by (simp add: initialHome_def)
  show ?thesis using h handleIterate_stopped_noop [OF h] by simp
qed



text \<open>
  Claim C10: when the \<open>stop\<close> request completes, whatever the response (its status is
  never read), the running state becomes false and the System entry \<open>stopped\<close> is appended
  to the log, the error message staying as it was; when the request throws, the page state
  changes in the error message only, so the running state is left as it was.
\<close>

theorem handleStop_outcomes:
  "fst (handleStop now (Resolved response) st) = [stopRequest]
   \<and> isRunning (snd (handleStop now (Resolved response) st)) = False
   \<and> logs (snd (handleStop now (Resolved response) st)) =
       slice_from_end 50 (logs st) @
         [\<lparr>agent = ''System'', action = ''stopped'', details = ''AI Pokemon player stopped'',
           timestamp = now\<rparr>]
   \<and> error (snd (handleStop now (Resolved response) st)) = error st
   \<and> handleStop now (Rejected err) st =
       ([stopRequest],
        st\<lparr>error := Some (case err of ErrorObject m \<Rightarrow> m | OtherValue \<Rightarrow> ''Failed to stop game'')\<rparr>)"
  by (simp add: handleStop_def addLog_def stamp_def catch_message_def)

section \<open>The connection manager\<close>

text \<open>What holds: \<open>connect\<close> is a no-op while the socket in the ref is open.\<close>

lemma connect_noop_when_open: "currentIsOpen c \<Longrightarrow> connect url_ok c = c"
  by (simp add: connect_def)

text \<open>\<open>disconnect\<close> clears the timer held in the ref and empties the socket ref.\<close>

lemma disconnect_clears_ref_timer:
  "reconnectTimeoutRef c = Some t \<Longrightarrow> t \<notin> set (pendingTimers (disconnect c))"
  by (simp add: disconnect_def Let_def split: option.splits)

lemma disconnect_wsRef: "wsRef (disconnect c) = None"
  by (simp add: disconnect_def Let_def split: option.splits)

text \<open>
  What holds of the automatic path: a close event sets the status to \<open>disconnected\<close> and
  leaves a fresh timer pending in the ref; when a pending timer falls due and the socket in
  the ref is not open, the status becomes \<open>connecting\<close> and a new socket is created.
\<close>

lemma close_schedules_reconnect:
  "step url_ok (SocketClose i) c = Some c' \<Longrightarrow>
   connectionStatus c' = Disconnected \<and> reconnectTimeoutRef c' = Some (nextTimer c)
   \<and> pendingTimers c' = pendingTimers c @ [nextTimer c]"
  by (auto simp: step_def onclose_def Let_def split: if_splits)

lemma timer_reconnects:
  "t \<in> set (pendingTimers c) \<Longrightarrow> \<not> currentIsOpen c \<Longrightarrow>
   step True (TimerFires t) c = Some c' \<Longrightarrow>
   connectionStatus c' = Connecting \<and> sockets c' = sockets c @ [CONNECTING]
   \<and> t \<notin> set (pendingTimers c')"
  by (auto simp: step_def connect_def currentIsOpen_def Let_def split: if_splits option.splits)

text \<open>
  Claim C2 (a close leads to \<open>disconnected\<close> and, after the backoff, to \<open>connecting\<close>, with
  at most one reconnect timer pending; after \<open>disconnect()\<close> no reconnect attempt fires).
  The code evaluated on the run connect, open, \<open>disconnect()\<close>, close event, timer: at
  \<open>disconnect()\<close> no timer is pending and the socket starts closing with its handlers still
  installed; its close event then runs \<open>onclose\<close>, which sets a new reconnect timer; when
  the timer falls due \<open>connect\<close> finds the ref empty and opens a second socket.
\<close>

theorem reconnect_fires_after_disconnect:
  "run True [CallConnect, SocketOpen 0, CallDisconnect] initialConn =
     Some \<lparr>connectionStatus = Connected, lastMessage = None, wsRef = None,
           reconnectTimeoutRef = None, sockets = [CLOSING], pendingTimers = [],
           nextTimer = 1, sent = []\<rparr>
   \<and> run True [CallConnect, SocketOpen 0, CallDisconnect, SocketClose 0] initialConn =
     Some \<lparr>connectionStatus = Disconnected, lastMessage = None, wsRef = None,
           reconnectTimeoutRef = Some 1, sockets = [CLOSED], pendingTimers = [1],
           nextTimer = 2, sent = []\<rparr>
   \<and> run True [CallConnect, SocketOpen 0, CallDisconnect, SocketClose 0, TimerFires 1]
       initialConn =
     Some \<lparr>connectionStatus = Connecting, lastMessage = None, wsRef = Some 1,
           reconnectTimeoutRef = Some 1, sockets = [CLOSED, CONNECTING], pendingTimers = [],
           nextTimer = 2, sent = []\<rparr>"
  by (simp add: step_def connect_def disconnect_def onopen_def onclose_def closeSocket_def
      currentIsOpen_def initialConn_def)

text \<open>
  The same omission gives two pending timers: the effect connects, is cleaned up and
  connects again (a remount); the first socket's close event sets timer 1, the second
  socket opens and closes and sets timer 2 while timer 1 is still pending.
\<close>

lemma two_reconnect_timers_pending:
  "run True [CallConnect, CallDisconnect, CallConnect, SocketClose 0, SocketOpen 1, SocketClose 1]
     initialConn =
     Some \<lparr>connectionStatus = Disconnected, lastMessage = None, wsRef = Some 1,
           reconnectTimeoutRef = Some 2, sockets = [CLOSED, CLOSED], pendingTimers = [1, 2],
           nextTimer = 3, sent = []\<rparr>"
  by (simp add: step_def connect_def disconnect_def onopen_def onclose_def closeSocket_def
      currentIsOpen_def initialConn_def)

text \<open>
  Claim C3 (\<open>connect()\<close> while connected or connecting is a no-op). The code evaluated on
  two \<open>connect()\<close> calls in a row: the guard tests for \<open>OPEN\<close> only, the first socket is
  still \<open>CONNECTING\<close>, so the second call creates a second socket and overwrites the ref;
  two live connection objects exist.
\<close>

theorem connect_while_connecting_opens_second_socket:
  "run True [CallConnect] initialConn =
     Some \<lparr>connectionStatus = Connecting, lastMessage = None, wsRef = Some 0,
           reconnectTimeoutRef = None, sockets = [CONNECTING], pendingTimers = [],
           nextTimer = 1, sent = []\<rparr>
   \<and> run True [CallConnect, CallConnect] initialConn =
     Some \<lparr>connectionStatus = Connecting, lastMessage = None, wsRef = Some 1,
           reconnectTimeoutRef = None, sockets = [CONNECTING, CONNECTING], pendingTimers = [],
           nextTimer = 1, sent = []\<rparr>
   \<and> map_option liveSockets (run True [CallConnect, CallConnect] initialConn) = Some [0, 1]"
  by (simp add: step_def connect_def currentIsOpen_def initialConn_def liveSockets_def)

section \<open>The screen poll\<close>

text \<open>
  What holds: once the prop is false the interval is cleared, so no tick can run and the
  stop itself issues no request; a late response never changes the number of requests.
\<close>

lemma stop_clears_interval: "display_step IntervalTick (pollEffect False d) = None"
  by (simp add: display_step_def pollEffect_def)

lemma stop_issues_nothing: "issued (pollEffect False d) = issued d"
  by (simp add: pollEffect_def)

lemma response_issues_nothing: "issued (fetchScreenResume fetched d) = issued d"
  by (simp add: fetchScreenResume_def split: awaited.splits)

text \<open>
  Claim C4 (after the running flag flips to false no request is issued and a late poll
  result does not restore the screen image). The code evaluated on the run start, stop,
  late response: the start issues a request; the stop clears the interval and resets the
  image while that request is in flight; the response then arrives and the continuation
  of \<open>fetchScreen\<close> sets the image without looking at the running flag again.
\<close>

theorem late_response_restores_screen:
  "display_run [Render True, Render False] mountedDisplay =
     Some \<lparr>runningProp = False, screenImage = None, pollInterval = None,
           issued = 1, inFlight = 1\<rparr>
   \<and> display_run [Render True, Render False,
        ResponseArrives (Resolved \<lparr>ok = True, json = Resolved \<lparr>image = ''iVBORw0KGgo=''\<rparr>\<rparr>)]
       mountedDisplay =
     Some \<lparr>runningProp = False, screenImage = Some ''data:image/png;base64,iVBORw0KGgo='',
           pollInterval = None, issued = 1, inFlight = 0\<rparr>"
  by (simp add: display_step_def pollEffect_def fetchScreen_def fetchScreenResume_def
      mountedDisplay_def)

end
